theory Spec2Isabelle
  imports Main
begin

section \<open>JavaScript helpers used by the stores and the terminal component\<close>

text \<open>
  Strings are lists of characters; a character stands for one code unit below 256.
  A value of type \<open>string | undefined\<close> or \<open>string | null\<close> is a \<open>string option\<close>.
\<close>

text \<open>\<open>x || d\<close> for an optional string \<open>x\<close>: \<open>undefined\<close> and the empty string are falsy.\<close>

definition js_or :: "string option \<Rightarrow> string \<Rightarrow> string" where
  "js_or x d = (case x of None \<Rightarrow> d | Some v \<Rightarrow> if v = [] then d else v)"

text \<open>\<open>x || null\<close> for a string \<open>x\<close>: the empty string becomes \<open>null\<close>.\<close>

definition js_or_null :: "string \<Rightarrow> string option" where
  "js_or_null v = (if v = [] then None else Some v)"

text \<open>Decimal rendering of a non-negative integer inside a template literal.\<close>

definition digit_char :: "nat \<Rightarrow> char" where
  "digit_char d = char_of (48 + d)"

function string_of_nat :: "nat \<Rightarrow> string" where
  "string_of_nat n =
     (if n < 10 then [digit_char n]
      else string_of_nat (n div 10) @ [digit_char (n mod 10)])"
  by pat_completeness auto
termination
  by (relation "measure (\<lambda>n. n)") auto

declare string_of_nat.simps [simp del]

text \<open>\<open>xs[i]\<close>: \<open>undefined\<close> outside the array.\<close>

definition js_index :: "'a list \<Rightarrow> int \<Rightarrow> 'a option" where
  "js_index xs i = (if 0 \<le> i \<and> i < int (length xs) then Some (xs ! nat i) else None)"

text \<open>\<open>xs.findIndex(p)\<close>: the first position where \<open>p\<close> holds, \<open>-1\<close> when there is none.\<close>

fun findIndex :: "('a \<Rightarrow> bool) \<Rightarrow> 'a list \<Rightarrow> int" where
  "findIndex p [] = -1"
| "findIndex p (x # xs) =
     (if p x then 0 else (let r = findIndex p xs in if r = -1 then -1 else r + 1))"

section \<open>The terminal store (src/stores/terminalStore.ts)\<close>

record TerminalSession =
  id_s :: string
  title :: string
  working_directory :: string
  is_active :: bool
  output_s :: string

record TerminalState =
  terminals :: "TerminalSession list"
  activeTerminalId :: "string option"
  isLoading :: bool
  error :: "string option"

text \<open>The store as \<open>create\<close> builds it.\<close>

definition initial_store :: TerminalState where
  "initial_store = \<lparr>terminals = [], activeTerminalId = None, isLoading = False, error = None\<rparr>"

text \<open>
  \<open>createTerminal(title, workingDirectory)\<close>; \<open>now\<close> is the value of \<open>Date.now()\<close>
  (milliseconds since the epoch) read by the call.
\<close>

definition createTerminal ::
  "string option \<Rightarrow> string option \<Rightarrow> nat \<Rightarrow> TerminalState \<Rightarrow> TerminalState" where
  "createTerminal ttl workingDirectory now s =
     (let newTerminal =
        \<lparr>id_s = ''terminal_'' @ string_of_nat now,
         title = js_or ttl (''Terminal '' @ string_of_nat (length (terminals s) + 1)),
         working_directory = js_or workingDirectory ''/'',
         is_active = False,
         output_s = []\<rparr>
      in s\<lparr>terminals := terminals s @ [newTerminal],
            activeTerminalId := Some (id_s newTerminal),
            isLoading := False,
            error := None\<rparr>)"

definition closeTerminal :: "string \<Rightarrow> TerminalState \<Rightarrow> TerminalState" where
  "closeTerminal i s =
     (let ts = filter (\<lambda>t. id_s t \<noteq> i) (terminals s);
          a = (if activeTerminalId s = Some i
               then (case ts of [] \<Rightarrow> None | t # _ \<Rightarrow> js_or_null (id_s t))
               else activeTerminalId s)
      in s\<lparr>terminals := ts, activeTerminalId := a, isLoading := False, error := None\<rparr>)"

definition setActiveTerminal :: "string \<Rightarrow> TerminalState \<Rightarrow> TerminalState" where
  "setActiveTerminal i s =
     s\<lparr>terminals := map (\<lambda>t. t\<lparr>is_active := (id_s t = i)\<rparr>) (terminals s),
       activeTerminalId := Some i,
       isLoading := False,
       error := None\<rparr>"

subsection \<open>Sequences of registry operations\<close>

datatype registry_op =
  Create "string option" "string option" nat
  | Close string
  | SetActive string

fun apply_op :: "registry_op \<Rightarrow> TerminalState \<Rightarrow> TerminalState" where
  "apply_op (Create ttl wd now) s = createTerminal ttl wd now s"
| "apply_op (Close i) s = closeTerminal i s"
| "apply_op (SetActive i) s = setActiveTerminal i s"

fun run_ops :: "TerminalState \<Rightarrow> registry_op list \<Rightarrow> TerminalState" where
  "run_ops s [] = s"
| "run_ops s (x # xs) = run_ops (apply_op x s) xs"

definition session_ids :: "TerminalState \<Rightarrow> string list" where
  "session_ids s = map id_s (terminals s)"

text \<open>How many sessions carry \<open>is_active = true\<close>, and the invariant on that number.\<close>

definition active_count :: "TerminalState \<Rightarrow> nat" where
  "active_count s = length (filter is_active (terminals s))"

definition at_most_one_active :: "TerminalState \<Rightarrow> bool" where
  "at_most_one_active s = (active_count s \<le> 1)"

text \<open>
  Every \<open>createTerminal\<close> of the sequence runs at a time whose identifier is not in use
  in the registry it is applied to.
\<close>

fun fresh_creates :: "TerminalState \<Rightarrow> registry_op list \<Rightarrow> bool" where
  "fresh_creates s [] = True"
| "fresh_creates s (Create ttl wd now # xs) =
     (''terminal_'' @ string_of_nat now \<notin> set (session_ids s)
      \<and> fresh_creates (createTerminal ttl wd now s) xs)"
| "fresh_creates s (x # xs) = fresh_creates (apply_op x s) xs"

text \<open>
  \<open>sendInput(terminalId, input)\<close>. The argument \<open>r\<close> is the outcome of
  \<open>await invoke('send_terminal_input', ...)\<close>: \<open>Inr ()\<close> when the promise resolves,
  \<open>Inl err\<close> when it rejects and the \<open>catch\<close> branch runs.
\<close>

definition prompt_line :: "string \<Rightarrow> string" where
  "prompt_line inp = ''$ '' @ inp @ [CHR 0x0A]"

definition sendInput :: "string \<Rightarrow> string \<Rightarrow> string + unit \<Rightarrow> TerminalState \<Rightarrow> TerminalState" where
  "sendInput terminalId inp r s =
     (case r of
        Inl err \<Rightarrow> s\<lparr>isLoading := False, error := Some err\<rparr>
      | Inr _ \<Rightarrow>
          s\<lparr>terminals :=
              map (\<lambda>t. if id_s t = terminalId
                        then t\<lparr>output_s := output_s t @ prompt_line inp\<rparr>
                        else t) (terminals s),
            isLoading := False,
            error := None\<rparr>)"

definition clearOutput :: "string \<Rightarrow> TerminalState \<Rightarrow> TerminalState" where
  "clearOutput terminalId s =
     s\<lparr>terminals :=
         map (\<lambda>t. if id_s t = terminalId then t\<lparr>output_s := []\<rparr> else t) (terminals s),
       isLoading := False,
       error := None\<rparr>"

text \<open>Feeding several lines to one session: one successful \<open>sendInput\<close> per line, in order.\<close>

fun sendInputs :: "string \<Rightarrow> string list \<Rightarrow> TerminalState \<Rightarrow> TerminalState" where
  "sendInputs terminalId [] s = s"
| "sendInputs terminalId (x # xs) s = sendInputs terminalId xs (sendInput terminalId x (Inr ()) s)"

subsection \<open>What the specification asks of the registry\<close>

text \<open>
  The session immediately preceding the session \<open>x\<close> in registry order, as the
  specification's rule for closing the active session names it.
\<close>

fun spec_predecessor :: "string \<Rightarrow> TerminalSession list \<Rightarrow> string option" where
  "spec_predecessor x [] = None"
| "spec_predecessor x [t] = None"
| "spec_predecessor x (p # t # ts) =
     (if id_s p = x then None
      else if id_s t = x then Some (id_s p)
      else spec_predecessor x (t # ts))"

text \<open>
  The specification's scrollback rule: of the lines fed to a session, the most recent
  \<open>scrollback_limit\<close> ones are retained, in arrival order.
\<close>

definition spec_scrollback :: "nat \<Rightarrow> string list \<Rightarrow> string list" where
  "spec_scrollback scrollback_limit ls = drop (length ls - scrollback_limit) ls"

section \<open>The terminal component's line editor (components/Terminal.tsx)\<close>

text \<open>
  \<open>String.prototype.trim\<close> removes white space and line terminators from both ends;
  among the code units below 256 these are tab, line feed, vertical tab, form feed,
  carriage return, space and the no-break space.
\<close>

definition js_whitespace :: "char \<Rightarrow> bool" where
  "js_whitespace c =
     (c = CHR 0x09 \<or> c = CHR 0x0A \<or> c = CHR 0x0B \<or> c = CHR 0x0C \<or> c = CHR 0x0D
      \<or> c = CHR 0x20 \<or> c = CHR 0xA0)"

definition trim :: "string \<Rightarrow> string" where
  "trim s = rev (dropWhile js_whitespace (rev (dropWhile js_whitespace s)))"

text \<open>
  \<open>s.slice(a, b)\<close> and \<open>s.slice(a)\<close>: a negative index counts from the end, and both
  indices are clamped to the string.
\<close>

definition slice_index :: "int \<Rightarrow> int \<Rightarrow> int" where
  "slice_index n i = (if i < 0 then max (n + i) 0 else min i n)"

definition slice :: "string \<Rightarrow> int \<Rightarrow> int \<Rightarrow> string" where
  "slice s a b =
     (let n = int (length s); from = slice_index n a; to = slice_index n b
      in take (nat (to - from)) (drop (nat from) s))"

definition slice_from :: "string \<Rightarrow> int \<Rightarrow> string" where
  "slice_from s a = drop (nat (slice_index (int (length s)) a)) s"

record KeyboardEvent =
  key :: string
  metaKey :: bool
  ctrlKey :: bool
  altKey :: bool

text \<open>The four \<open>useState\<close> cells of the component.\<close>

record Terminal =
  input :: string
  cursorPosition :: int
  commandHistory :: "string list"
  historyIndex :: int

definition initial_terminal :: Terminal where
  "initial_terminal = \<lparr>input = [], cursorPosition = 0, commandHistory = [], historyIndex = -1\<rparr>"

datatype js_error = TypeError

text \<open>
  \<open>handleKeyDown(e)\<close> on the component state \<open>s\<close>. The result is the line passed to
  \<open>onInput\<close>, if the handler calls it, and the state after the handler's updates.
  Reading \<open>.length\<close> of \<open>commandHistory[newIndex]\<close> when that entry is \<open>undefined\<close>
  throws; this is the result \<open>Inl TypeError\<close>.
\<close>

definition handleKeyDown :: "KeyboardEvent \<Rightarrow> Terminal \<Rightarrow> js_error + (string option \<times> Terminal)" where
  "handleKeyDown e s =
     (if key e = ''Enter'' then
        (if trim (input s) \<noteq> [] then
           Inr (Some (input s),
                s\<lparr>commandHistory := commandHistory s @ [input s],
                  historyIndex := -1,
                  input := [],
                  cursorPosition := 0\<rparr>)
         else Inr (None, s))
      else if key e = ''ArrowUp'' then
        (if length (commandHistory s) > 0 then
           (let newIndex = (if historyIndex s = -1
                            then int (length (commandHistory s)) - 1
                            else max 0 (historyIndex s - 1))
            in case js_index (commandHistory s) newIndex of
                 None \<Rightarrow> Inl TypeError
               | Some l \<Rightarrow>
                   Inr (None, s\<lparr>historyIndex := newIndex,
                                 input := l,
                                 cursorPosition := int (length l)\<rparr>))
         else Inr (None, s))
      else if key e = ''ArrowDown'' then
        (if historyIndex s \<noteq> -1 then
           (let newIndex = historyIndex s + 1
            in if newIndex \<ge> int (length (commandHistory s)) then
                 Inr (None, s\<lparr>historyIndex := -1, input := [], cursorPosition := 0\<rparr>)
               else
                 (case js_index (commandHistory s) newIndex of
                    None \<Rightarrow> Inl TypeError
                  | Some l \<Rightarrow>
                      Inr (None, s\<lparr>historyIndex := newIndex,
                                    input := l,
                                    cursorPosition := int (length l)\<rparr>)))
         else Inr (None, s))
      else if key e = ''ArrowLeft'' then
        Inr (None, s\<lparr>cursorPosition := max 0 (cursorPosition s - 1)\<rparr>)
      else if key e = ''ArrowRight'' then
        Inr (None, s\<lparr>cursorPosition := min (int (length (input s))) (cursorPosition s + 1)\<rparr>)
      else if key e = ''Home'' then
        Inr (None, s\<lparr>cursorPosition := 0\<rparr>)
      else if key e = ''End'' then
        Inr (None, s\<lparr>cursorPosition := int (length (input s))\<rparr>)
      else if key e = ''Backspace'' then
        (if cursorPosition s > 0 then
           Inr (None,
                s\<lparr>input := slice (input s) 0 (cursorPosition s - 1)
                              @ slice_from (input s) (cursorPosition s),
                  cursorPosition := cursorPosition s - 1\<rparr>)
         else Inr (None, s))
      else if key e = ''Delete'' then
        (if cursorPosition s < int (length (input s)) then
           Inr (None,
                s\<lparr>input := slice (input s) 0 (cursorPosition s)
                              @ slice_from (input s) (cursorPosition s + 1)\<rparr>)
         else Inr (None, s))
      else if key e = ''Tab'' then Inr (None, s)
      else if key e = ''c'' then Inr (None, s)
      else if key e = ''v'' then Inr (None, s)
      else
        (if length (key e) = 1 \<and> \<not> metaKey e \<and> \<not> ctrlKey e \<and> \<not> altKey e then
           Inr (None,
                s\<lparr>input := slice (input s) 0 (cursorPosition s) @ key e
                              @ slice_from (input s) (cursorPosition s),
                  cursorPosition := cursorPosition s + 1\<rparr>)
         else Inr (None, s)))"

text \<open>A key press with no modifier held.\<close>

definition press :: "string \<Rightarrow> KeyboardEvent" where
  "press k = \<lparr>key = k, metaKey = False, ctrlKey = False, altKey = False\<rparr>"

text \<open>A sequence of key events, handled one after the other; a throwing handler ends it.\<close>

fun run_keys :: "KeyboardEvent list \<Rightarrow> Terminal \<Rightarrow> js_error + Terminal" where
  "run_keys [] s = Inr s"
| "run_keys (e # es) s =
     (case handleKeyDown e s of
        Inl err \<Rightarrow> Inl err
      | Inr (_, s') \<Rightarrow> run_keys es s')"

text \<open>The data-model invariant of the editor, and the range of the history index.\<close>

definition cursor_ok :: "Terminal \<Rightarrow> bool" where
  "cursor_ok s = (0 \<le> cursorPosition s \<and> cursorPosition s \<le> int (length (input s)))"

definition history_ok :: "Terminal \<Rightarrow> bool" where
  "history_ok s = (-1 \<le> historyIndex s \<and> historyIndex s < int (length (commandHistory s)))"

text \<open>
  The specification's rule for the history on \<open>submit\<close>: the line is appended unless it
  is empty or equal to the entry just before it.
\<close>

definition spec_submit_history :: "string list \<Rightarrow> string \<Rightarrow> string list" where
  "spec_submit_history h b = (if b = [] \<or> (h \<noteq> [] \<and> last h = b) then h else h @ [b])"

section \<open>The application store (stores/appStore.ts)\<close>

record Provider =
  id_p :: string
  name :: string
  provider_type :: string
  base_url :: "string option"
  model :: "string option"
  api_key :: "string option"
  default_p :: bool
  enabled :: bool
  config :: "(string \<times> string) list"

text \<open>
  The store's state; the fields \<open>systemInfo\<close> and \<open>workspaceInfo\<close>, which
  \<open>loadProviders\<close> neither reads nor writes, are left out.
\<close>

record AppState =
  providers :: "Provider list"
  defaultProvider :: "string option"
  isLoading_app :: bool
  error_app :: "string option"

definition initial_app_store :: AppState where
  "initial_app_store =
     \<lparr>providers = [], defaultProvider = None, isLoading_app = False, error_app = None\<rparr>"

text \<open>
  \<open>loadProviders()\<close>. The argument \<open>r\<close> is the outcome of
  \<open>await invoke('get_providers')\<close>: \<open>Inr ps\<close> when the backend returns the configured
  provider list \<open>ps\<close>, \<open>Inl err\<close> when the call rejects.
\<close>

definition loadProviders :: "string + Provider list \<Rightarrow> AppState \<Rightarrow> AppState" where
  "loadProviders r s =
     (case r of
        Inl err \<Rightarrow> s\<lparr>isLoading_app := False, error_app := Some err\<rparr>
      | Inr ps \<Rightarrow>
          s\<lparr>providers := ps,
            defaultProvider :=
              (case find default_p ps of None \<Rightarrow> None | Some p \<Rightarrow> js_or_null (id_p p)),
            isLoading_app := False,
            error_app := None\<rparr>)"

section \<open>The application component (App.tsx)\<close>

text \<open>
  The component's two \<open>useState\<close> cells and the terminal store it uses.
\<close>

record App =
  isVisible :: bool
  isCommandPaletteOpen :: bool
  store :: TerminalState

text \<open>
  \<open>handleHotkeyCallback(callback)\<close>. The handler is a closure: it reads \<open>isVisible\<close>,
  \<open>terminals\<close> and \<open>activeTerminalId\<close> as they were in the render \<open>r\<close> that created
  it, while its state setters and store actions act on the current state \<open>s\<close>.
  \<open>now\<close> is \<open>Date.now()\<close> at the call.
\<close>

definition handleHotkeyCallback :: "App \<Rightarrow> string \<Rightarrow> nat \<Rightarrow> App \<Rightarrow> App" where
  "handleHotkeyCallback r callback now s =
     (if callback = ''toggle_window'' then s\<lparr>isVisible := \<not> isVisible r\<rparr>
      else if callback = ''paste_run'' then s
      else if callback = ''quick_hide'' then s\<lparr>isVisible := False\<rparr>
      else if callback = ''new_tab'' then s\<lparr>store := createTerminal None None now (store s)\<rparr>
      else if callback = ''close_tab'' then
        (case activeTerminalId (store r) of
           None \<Rightarrow> s
         | Some a \<Rightarrow> if a = [] then s else s\<lparr>store := closeTerminal a (store s)\<rparr>)
      else if callback = ''next_tab'' then
        (let ts = terminals (store r);
             currentIndex = findIndex (\<lambda>t. Some (id_s t) = activeTerminalId (store r)) ts
         in if ts = [] then s
            else (case js_index ts ((currentIndex + 1) mod int (length ts)) of
                    None \<Rightarrow> s
                  | Some t \<Rightarrow> s\<lparr>store := setActiveTerminal (id_s t) (store s)\<rparr>))
      else if callback = ''prev_tab'' then
        (let ts = terminals (store r);
             currentIdx = findIndex (\<lambda>t. Some (id_s t) = activeTerminalId (store r)) ts;
             prevIndex = (if currentIdx = 0 then int (length ts) - 1 else currentIdx - 1)
         in case js_index ts prevIndex of
              None \<Rightarrow> s
            | Some t \<Rightarrow> s\<lparr>store := setActiveTerminal (id_s t) (store s)\<rparr>)
      else s)"




section \<open>Auxiliary notions and example states\<close>

text \<open>The keys that \<open>handleKeyDown\<close> gives a \<open>case\<close> of their own.\<close>

definition named_key :: "string \<Rightarrow> bool" where
  "named_key k =
     (k \<in> set [''Enter'', ''ArrowUp'', ''ArrowDown'', ''ArrowLeft'', ''ArrowRight'',
                ''Home'', ''End'', ''Backspace'', ''Delete'', ''Tab'', ''c'', ''v''])"

text \<open>
  Three sessions opened one after the other, the last one then activated with
  \<open>setActiveTerminal\<close>.
\<close>

definition three_open :: TerminalState where
  "three_open = run_ops initial_store
     [Create None None 1, Create None None 2, Create None None 3, SetActive ''terminal_3'']"

text \<open>One session, activated with \<open>setActiveTerminal\<close>.\<close>

definition one_active :: TerminalState where
  "one_active = run_ops initial_store [Create None None 1, SetActive ''terminal_1'']"

text \<open>An editor holding unsent text, with one line in its history.\<close>

definition typing_abc :: Terminal where
  "typing_abc =
     \<lparr>input = ''abc'', cursorPosition = 3, commandHistory = [''ls -la''], historyIndex = -1\<rparr>"


text \<open>An editor whose buffer repeats the line submitted last.\<close>

definition repeating_ls :: Terminal where
  "repeating_ls =
     \<lparr>input = ''ls'', cursorPosition = 2, commandHistory = [''ls''], historyIndex = -1\<rparr>"

text \<open>An editor whose buffer holds two spaces.\<close>

definition blank_buffer :: Terminal where
  "blank_buffer =
     \<lparr>input = ''  '', cursorPosition = 2, commandHistory = [''ls''], historyIndex = -1\<rparr>"

text \<open>Two providers, both configured as the default.\<close>

definition provider_a :: Provider where
  "provider_a =
     \<lparr>id_p = ''openai'', name = ''OpenAI'', provider_type = ''openai'', base_url = None,
      model = Some ''gpt-4'', api_key = None, default_p = True, enabled = True, config = []\<rparr>"

definition provider_b :: Provider where
  "provider_b =
     \<lparr>id_p = ''ollama'', name = ''Ollama'', provider_type = ''ollama'',
      base_url = Some ''http://localhost:11434'', model = Some ''llama2'', api_key = None,
      default_p = True, enabled = True, config = []\<rparr>"

text \<open>A visible window showing one terminal.\<close>

definition visible_app :: App where
  "visible_app = \<lparr>isVisible = True, isCommandPaletteOpen = False, store = one_active\<rparr>"

text \<open>The same application with its window hidden.\<close>

definition hidden_app :: App where
  "hidden_app = \<lparr>isVisible = False, isCommandPaletteOpen = False, store = one_active\<rparr>"

section \<open>The single-active-session invariant\<close>

lemma active_count_createTerminal:
  "active_count (createTerminal ttl wd now s) = active_count s"
  by (simp add: active_count_def createTerminal_def Let_def)

lemma length_filter_filter_le:
  "length (filter P (filter Q xs)) \<le> length (filter P xs)"
  by (induction xs) auto

lemma active_count_closeTerminal:
  "active_count (closeTerminal i s) \<le> active_count s"
  by (simp add: active_count_def closeTerminal_def Let_def length_filter_filter_le
        del: filter_filter)

lemma no_match_no_active:
  "i \<notin> set (map id_s ts) \<Longrightarrow>
   filter is_active (map (\<lambda>t. t\<lparr>is_active := (id_s t = i)\<rparr>) ts) = []"
  by (induction ts) auto

lemma distinct_ids_one_match:
  "distinct (map id_s ts) \<Longrightarrow>
   length (filter is_active (map (\<lambda>t. t\<lparr>is_active := (id_s t = i)\<rparr>) ts)) \<le> 1"
proof (induction ts)
  case Nil
  then show ?case by simp
next
  case (Cons a ts)
  show ?case
  proof (cases "id_s a = i")
    case True
    with Cons.prems have "i \<notin> set (map id_s ts)" by auto
    then show ?thesis using True by (simp add: no_match_no_active)
  next
    case False
    with Cons show ?thesis by simp
  qed
qed

lemma active_count_setActiveTerminal:
  "distinct (session_ids s) \<Longrightarrow> active_count (setActiveTerminal i s) \<le> 1"
  using distinct_ids_one_match [of "terminals s" i]
  by (simp add: active_count_def setActiveTerminal_def session_ids_def)

lemma session_ids_createTerminal:
  "session_ids (createTerminal ttl wd now s) = session_ids s @ [''terminal_'' @ string_of_nat now]"
  by (simp add: session_ids_def createTerminal_def Let_def)

lemma session_ids_closeTerminal:
  "session_ids (closeTerminal i s) = filter (\<lambda>x. x \<noteq> i) (session_ids s)"
  by (simp add: session_ids_def closeTerminal_def Let_def filter_map comp_def)

lemma session_ids_setActiveTerminal:
  "session_ids (setActiveTerminal i s) = session_ids s"
  by (simp add: session_ids_def setActiveTerminal_def comp_def)

lemma registry_step_invariant:
  assumes "distinct (session_ids s)" and "at_most_one_active s"
    and "fresh_creates s [x]"
  shows "distinct (session_ids (apply_op x s)) \<and> at_most_one_active (apply_op x s)"
proof (cases x)
  case (Create ttl wd now)
  with assms show ?thesis
    by (simp add: session_ids_createTerminal at_most_one_active_def active_count_createTerminal)
next
  case (Close i)
  have "active_count (closeTerminal i s) \<le> active_count s"
    by (rule active_count_closeTerminal)
  with assms Close show ?thesis
    by (simp add: session_ids_closeTerminal at_most_one_active_def)
next
  case (SetActive i)
  with assms active_count_setActiveTerminal [of s i] show ?thesis
    by (simp add: session_ids_setActiveTerminal at_most_one_active_def)
qed

lemma fresh_creates_Cons:
  "fresh_creates s (x # xs) = (fresh_creates s [x] \<and> fresh_creates (apply_op x s) xs)"
  by (cases x) simp_all

lemma registry_run_invariant:
  "distinct (session_ids s) \<Longrightarrow> at_most_one_active s \<Longrightarrow> fresh_creates s xs \<Longrightarrow>
   distinct (session_ids (run_ops s xs)) \<and> at_most_one_active (run_ops s xs)"
proof (induction xs arbitrary: s)
  case Nil
  then show ?case by simp
next
  case (Cons x xs)
  from Cons.prems(3) have f1: "fresh_creates s [x]" and f2: "fresh_creates (apply_op x s) xs"
    using fresh_creates_Cons [of s x xs] by simp_all
  from registry_step_invariant [OF Cons.prems(1) Cons.prems(2) f1]
  have "distinct (session_ids (apply_op x s))" and "at_most_one_active (apply_op x s)"
    by simp_all
  from Cons.IH [OF this f2] show ?case by simp
qed

text \<open>
  Where the session identifiers are pairwise distinct and every \<open>createTerminal\<close> of a
  sequence obtains an identifier not yet in the registry, the sequence keeps the number
  of sessions with \<open>is_active = true\<close> at one or none: a repeated identifier is the
  only way to two active sessions.
\<close>

lemma single_active_with_distinct_ids:
  assumes "distinct (session_ids s)"
    and "at_most_one_active s"
    and "fresh_creates s xs"
  shows "at_most_one_active (run_ops s xs)"
  using registry_run_invariant [OF assms] by simp

text \<open>
  C1. The code does not keep the invariant that at most one session has
  \<open>is_active = true\<close>: \<open>createTerminal\<close> takes the identifier from \<open>Date.now()\<close>, so
  two calls within the same millisecond give two sessions the same identifier, and
  \<open>setActiveTerminal\<close> on that identifier then marks both of them active. The registry
  is the store's initial one, where no session is active.
\<close>

theorem repeated_id_two_active:
  "at_most_one_active initial_store
   \<and> map id_s (terminals (run_ops initial_store
        [Create None None 1, Create None None 1, SetActive ''terminal_1'']))
      = [''terminal_1'', ''terminal_1'']
   \<and> map is_active (terminals (run_ops initial_store
        [Create None None 1, Create None None 1, SetActive ''terminal_1'']))
      = [True, True]
   \<and> \<not> at_most_one_active (run_ops initial_store
        [Create None None 1, Create None None 1, SetActive ''terminal_1''])"
  by code_simp

section \<open>Closing the active session\<close>

lemma first_of_filter_find:
  "(case filter P ts of [] \<Rightarrow> None | t # _ \<Rightarrow> f t) =
   (case find P ts of None \<Rightarrow> None | Some t \<Rightarrow> f t)"
  by (induction ts) auto

text \<open>
  C2 (as amended). When the registry designates the session \<open>x\<close> as active
  (\<open>activeTerminalId = x\<close>), closing \<open>x\<close> removes the sessions with that identifier and
  hands activation to the first session that remains in registry order; no session is
  active afterwards when none remains (or when that first session's identifier is the
  empty string, which \<open>|| null\<close> turns into \<open>null\<close>).
\<close>

theorem close_active_falls_to_first:
  assumes "activeTerminalId s = Some x"
  shows "terminals (closeTerminal x s) = filter (\<lambda>t. id_s t \<noteq> x) (terminals s)
    \<and> activeTerminalId (closeTerminal x s) =
        (case find (\<lambda>t. id_s t \<noteq> x) (terminals s) of
           None \<Rightarrow> None
         | Some t \<Rightarrow> js_or_null (id_s t))"
  using assms
    first_of_filter_find [where P = "\<lambda>t. id_s t \<noteq> x" and ts = "terminals s"
      and f = "\<lambda>t. js_or_null (id_s t)"]
  by (simp add: closeTerminal_def Let_def)

theorem close_active_falls_to_first_witness:
  "activeTerminalId three_open = Some ''terminal_3''
   \<and> map id_s (terminals (closeTerminal ''terminal_3'' three_open)) = [''terminal_1'', ''terminal_2'']
   \<and> activeTerminalId (closeTerminal ''terminal_3'' three_open) = Some ''terminal_1''"
proof -
  have a: "activeTerminalId three_open = Some ''terminal_3''"
    by code_simp
  have f: "map id_s (filter (\<lambda>t. id_s t \<noteq> ''terminal_3'') (terminals three_open))
           = [''terminal_1'', ''terminal_2'']"
    by code_simp
  have g: "(case find (\<lambda>t. id_s t \<noteq> ''terminal_3'') (terminals three_open) of
              None \<Rightarrow> None | Some t \<Rightarrow> js_or_null (id_s t)) = Some ''terminal_1''"
    by code_simp
  from close_active_falls_to_first [OF a] a f g show ?thesis by simp
qed

text \<open>
  C2 (as stated) fails: with three sessions open and the third one active, closing it
  activates the first session, not the second one, which is its predecessor; and no
  remaining session carries \<open>is_active = true\<close>.
\<close>

theorem close_active_counterexample:
  "activeTerminalId three_open = Some ''terminal_3''
   \<and> map is_active (terminals three_open) = [False, False, True]
   \<and> spec_predecessor ''terminal_3'' (terminals three_open) = Some ''terminal_2''
   \<and> activeTerminalId (closeTerminal ''terminal_3'' three_open) = Some ''terminal_1''
   \<and> map is_active (terminals (closeTerminal ''terminal_3'' three_open)) = [False, False]"
  by code_simp

section \<open>Output buffers\<close>

text \<open>
  C4 (as amended). Feeding any number of lines to a session appends all of them to the
  output buffer of every session with that identifier, in arrival order, each as
  \<open>$ line\<close> followed by a line feed; nothing is evicted, whatever the number of lines.
\<close>

theorem sendInputs_keeps_every_line:
  "map output_s (terminals (sendInputs i xs s)) =
   map (\<lambda>t. if id_s t = i then output_s t @ concat (map prompt_line xs) else output_s t)
     (terminals s)"
proof (induction xs arbitrary: s)
  case Nil
  show ?case by simp
next
  case (Cons x xs)
  show ?case by (simp add: Cons.IH sendInput_def comp_def)
qed

text \<open>
  C4 (as stated) fails: with a scrollback limit of one line, two lines fed to a new
  session are both in its buffer afterwards, not only the most recent one.
\<close>

theorem scrollback_counterexample:
  "map output_s (terminals (sendInputs ''terminal_1'' [''a'', ''b'']
        (createTerminal None None 1 initial_store)))
    = [concat (map prompt_line [''a'', ''b''])]
   \<and> concat (map prompt_line [''a'', ''b''])
        \<noteq> concat (spec_scrollback 1 (map prompt_line [''a'', ''b'']))"
  by code_simp

section \<open>Creating a session\<close>





section \<open>The line editor\<close>

lemma trim_empty_iff: "trim s = [] \<longleftrightarrow> (\<forall>c \<in> set s. js_whitespace c)"
proof
  assume "trim s = []"
  then have a: "\<forall>c \<in> set (dropWhile js_whitespace s). js_whitespace c"
    by (simp add: trim_def)
  have "dropWhile js_whitespace s = []"
  proof (rule ccontr)
    assume n: "dropWhile js_whitespace s \<noteq> []"
    then have "\<not> js_whitespace (hd (dropWhile js_whitespace s))"
      by (rule hd_dropWhile)
    moreover from n have "hd (dropWhile js_whitespace s) \<in> set (dropWhile js_whitespace s)"
      by simp
    ultimately show False using a by blast
  qed
  then show "\<forall>c \<in> set s. js_whitespace c"
    by simp
next
  assume "\<forall>c \<in> set s. js_whitespace c"
  then show "trim s = []"
    by (auto simp add: trim_def dest: set_dropWhileD)
qed


lemma slice_prefix: "0 \<le> c \<Longrightarrow> c \<le> int (length s) \<Longrightarrow> slice s 0 c = take (nat c) s"
  by (simp add: slice_def slice_index_def Let_def)

lemma slice_from_suffix: "0 \<le> c \<Longrightarrow> slice_from s c = drop (nat c) s"
  by (auto simp add: slice_from_def slice_index_def min_def)

subsection \<open>The handler, one key at a time\<close>

lemma key_Enter:
  "key e = ''Enter'' \<Longrightarrow> handleKeyDown e s =
     (if trim (input s) \<noteq> [] then
        Inr (Some (input s),
             s\<lparr>commandHistory := commandHistory s @ [input s],
               historyIndex := -1,
               input := [],
               cursorPosition := 0\<rparr>)
      else Inr (None, s))"
  by (simp add: handleKeyDown_def)

lemma key_ArrowUp:
  "key e = ''ArrowUp'' \<Longrightarrow> handleKeyDown e s =
     (if length (commandHistory s) > 0 then
        (let newIndex = (if historyIndex s = -1
                         then int (length (commandHistory s)) - 1
                         else max 0 (historyIndex s - 1))
         in case js_index (commandHistory s) newIndex of
              None \<Rightarrow> Inl TypeError
            | Some l \<Rightarrow>
                Inr (None, s\<lparr>historyIndex := newIndex,
                              input := l,
                              cursorPosition := int (length l)\<rparr>))
      else Inr (None, s))"
  by (simp add: handleKeyDown_def)

lemma key_ArrowDown:
  "key e = ''ArrowDown'' \<Longrightarrow> handleKeyDown e s =
     (if historyIndex s \<noteq> -1 then
        (let newIndex = historyIndex s + 1
         in if newIndex \<ge> int (length (commandHistory s)) then
              Inr (None, s\<lparr>historyIndex := -1, input := [], cursorPosition := 0\<rparr>)
            else
              (case js_index (commandHistory s) newIndex of
                 None \<Rightarrow> Inl TypeError
               | Some l \<Rightarrow>
                   Inr (None, s\<lparr>historyIndex := newIndex,
                                 input := l,
                                 cursorPosition := int (length l)\<rparr>)))
      else Inr (None, s))"
  by (simp add: handleKeyDown_def)

lemma key_ArrowLeft:
  "key e = ''ArrowLeft'' \<Longrightarrow> handleKeyDown e s =
     Inr (None, s\<lparr>cursorPosition := max 0 (cursorPosition s - 1)\<rparr>)"
  by (simp add: handleKeyDown_def)

lemma key_ArrowRight:
  "key e = ''ArrowRight'' \<Longrightarrow> handleKeyDown e s =
     Inr (None, s\<lparr>cursorPosition := min (int (length (input s))) (cursorPosition s + 1)\<rparr>)"
  by (simp add: handleKeyDown_def)

lemma key_Home:
  "key e = ''Home'' \<Longrightarrow> handleKeyDown e s = Inr (None, s\<lparr>cursorPosition := 0\<rparr>)"
  by (simp add: handleKeyDown_def)

lemma key_End:
  "key e = ''End'' \<Longrightarrow> handleKeyDown e s =
     Inr (None, s\<lparr>cursorPosition := int (length (input s))\<rparr>)"
  by (simp add: handleKeyDown_def)

lemma key_Backspace:
  "key e = ''Backspace'' \<Longrightarrow> handleKeyDown e s =
     (if cursorPosition s > 0 then
        Inr (None,
             s\<lparr>input := slice (input s) 0 (cursorPosition s - 1)
                           @ slice_from (input s) (cursorPosition s),
               cursorPosition := cursorPosition s - 1\<rparr>)
      else Inr (None, s))"
  by (simp add: handleKeyDown_def)

lemma key_Delete:
  "key e = ''Delete'' \<Longrightarrow> handleKeyDown e s =
     (if cursorPosition s < int (length (input s)) then
        Inr (None,
             s\<lparr>input := slice (input s) 0 (cursorPosition s)
                           @ slice_from (input s) (cursorPosition s + 1)\<rparr>)
      else Inr (None, s))"
  by (simp add: handleKeyDown_def)

lemma key_ignored:
  "key e = ''Tab'' \<or> key e = ''c'' \<or> key e = ''v'' \<Longrightarrow> handleKeyDown e s = Inr (None, s)"
  by (auto simp add: handleKeyDown_def)

lemma key_default:
  "\<not> named_key (key e) \<Longrightarrow> handleKeyDown e s =
     (if length (key e) = 1 \<and> \<not> metaKey e \<and> \<not> ctrlKey e \<and> \<not> altKey e then
        Inr (None,
             s\<lparr>input := slice (input s) 0 (cursorPosition s) @ key e
                           @ slice_from (input s) (cursorPosition s),
               cursorPosition := cursorPosition s + 1\<rparr>)
      else Inr (None, s))"
  by (simp add: handleKeyDown_def named_key_def)

subsection \<open>History browsing\<close>




subsection \<open>Submitting a line\<close>

text \<open>
  C6 (as amended). On \<open>Enter\<close>, when the buffer holds at least one character that is
  not white space, the handler passes the buffer content on, appends it to the history
  in every case (also when it equals the entry before it), clears the buffer, resets
  the cursor to 0 and leaves history browsing; when the buffer is empty or holds white
  space only, the handler passes nothing on and changes nothing.
\<close>

theorem enter_submits_or_ignores:
  assumes "key e = ''Enter''"
  shows "handleKeyDown e s =
     (if \<exists>c \<in> set (input s). \<not> js_whitespace c
      then Inr (Some (input s),
                s\<lparr>commandHistory := commandHistory s @ [input s],
                  historyIndex := -1,
                  input := [],
                  cursorPosition := 0\<rparr>)
      else Inr (None, s))"
  using assms trim_empty_iff [of "input s"] by (auto simp add: handleKeyDown_def)

theorem enter_submits_or_ignores_witness:
  "key (press ''Enter'') = ''Enter''
   \<and> handleKeyDown (press ''Enter'') repeating_ls
     = Inr (Some ''ls'',
            \<lparr>input = [], cursorPosition = 0, commandHistory = [''ls'', ''ls''],
             historyIndex = -1\<rparr>)"
proof -
  have k: "key (press ''Enter'') = ''Enter''"
    by (simp add: press_def)
  have w: "\<exists>c \<in> set (input repeating_ls). \<not> js_whitespace c"
    by (simp add: repeating_ls_def js_whitespace_def)
  from enter_submits_or_ignores [OF k, of repeating_ls] w k show ?thesis
    by (simp add: repeating_ls_def)
qed

text \<open>
  C6 (as stated) fails: submitting \<open>ls\<close> when \<open>ls\<close> is already the last history entry
  appends it again, where the stated rule skips the append.
\<close>

theorem enter_duplicate_counterexample:
  "handleKeyDown (press ''Enter'') repeating_ls
     = Inr (Some ''ls'',
            \<lparr>input = [], cursorPosition = 0, commandHistory = [''ls'', ''ls''],
             historyIndex = -1\<rparr>)
   \<and> spec_submit_history (commandHistory repeating_ls) (input repeating_ls) = [''ls'']"
  by (simp add: handleKeyDown_def press_def repeating_ls_def trim_def js_whitespace_def
      spec_submit_history_def)

text \<open>
  C10. When the buffer consists of white space only (the empty buffer included),
  \<open>Enter\<close> passes no line on and leaves the whole editor state as it is: history,
  history index, buffer and cursor.
\<close>

theorem enter_on_blank_is_noop:
  assumes "\<forall>c \<in> set (input s). js_whitespace c" and "key e = ''Enter''"
  shows "handleKeyDown e s = Inr (None, s)"
  using assms trim_empty_iff [of "input s"] by (simp add: handleKeyDown_def)

theorem enter_on_blank_is_noop_witness:
  "(\<exists>c. c \<in> set (input blank_buffer)) \<and> key (press ''Enter'') = ''Enter''
   \<and> handleKeyDown (press ''Enter'') blank_buffer = Inr (None, blank_buffer)
   \<and> input blank_buffer = ''  '' \<and> cursorPosition blank_buffer = 2"
proof -
  have w: "\<forall>c \<in> set (input blank_buffer). js_whitespace c"
    by (simp add: blank_buffer_def js_whitespace_def)
  have k: "key (press ''Enter'') = ''Enter''"
    by (simp add: press_def)
  have n: "\<exists>c. c \<in> set (input blank_buffer)"
    by (auto simp add: blank_buffer_def)
  from enter_on_blank_is_noop [OF w k] k n show ?thesis
    by (simp add: blank_buffer_def)
qed

subsection \<open>The cursor stays inside the buffer\<close>

lemma handleKeyDown_cursor_ok:
  assumes c: "cursor_ok s"
    and h: "key e = ''ArrowUp'' \<or> key e = ''ArrowDown'' \<longrightarrow> history_ok s"
  shows "\<exists>fwd s'. handleKeyDown e s = Inr (fwd, s') \<and> cursor_ok s'"
proof -
  consider (enter) "key e = ''Enter''" | (up) "key e = ''ArrowUp''"
    | (down) "key e = ''ArrowDown''" | (left) "key e = ''ArrowLeft''"
    | (right) "key e = ''ArrowRight''" | (home) "key e = ''Home''"
    | (endk) "key e = ''End''" | (bksp) "key e = ''Backspace''"
    | (delk) "key e = ''Delete''"
    | (ign) "key e = ''Tab'' \<or> key e = ''c'' \<or> key e = ''v''"
    | (other) "\<not> named_key (key e)"
    unfolding named_key_def by auto
  then show ?thesis
  proof cases
    case enter
    with c show ?thesis by (simp add: key_Enter cursor_ok_def)
  next
    case up
    with h have "history_ok s" by simp
    with c up show ?thesis
      by (auto simp add: key_ArrowUp cursor_ok_def history_ok_def js_index_def Let_def)
  next
    case down
    with h have "history_ok s" by simp
    with c down show ?thesis
      by (auto simp add: key_ArrowDown cursor_ok_def history_ok_def js_index_def Let_def)
  next
    case left
    with c show ?thesis by (simp add: key_ArrowLeft cursor_ok_def)
  next
    case right
    with c show ?thesis by (simp add: key_ArrowRight cursor_ok_def)
  next
    case home
    with c show ?thesis by (simp add: key_Home cursor_ok_def)
  next
    case endk
    with c show ?thesis by (simp add: key_End cursor_ok_def)
  next
    case bksp
    with c show ?thesis
      by (auto simp add: key_Backspace cursor_ok_def slice_prefix slice_from_suffix)
  next
    case delk
    with c show ?thesis
      by (auto simp add: key_Delete cursor_ok_def slice_prefix slice_from_suffix)
  next
    case ign
    with c show ?thesis by (simp add: key_ignored)
  next
    case other
    with c show ?thesis
      by (auto simp add: key_default cursor_ok_def slice_prefix slice_from_suffix)
  qed
qed

lemma history_ok_preserved:
  assumes h: "history_ok s" and r: "handleKeyDown e s = Inr (fwd, s')"
  shows "history_ok s'"
proof -
  consider (enter) "key e = ''Enter''" | (up) "key e = ''ArrowUp''"
    | (down) "key e = ''ArrowDown''" | (left) "key e = ''ArrowLeft''"
    | (right) "key e = ''ArrowRight''" | (home) "key e = ''Home''"
    | (endk) "key e = ''End''" | (bksp) "key e = ''Backspace''"
    | (delk) "key e = ''Delete''"
    | (ign) "key e = ''Tab'' \<or> key e = ''c'' \<or> key e = ''v''"
    | (other) "\<not> named_key (key e)"
    unfolding named_key_def by auto
  then show ?thesis
  proof cases
    case enter
    with h r show ?thesis
      by (auto simp add: key_Enter history_ok_def split: if_splits)
  next
    case up
    with h r show ?thesis
      by (auto simp add: key_ArrowUp history_ok_def js_index_def Let_def split: if_splits)
  next
    case down
    with h r show ?thesis
      by (auto simp add: key_ArrowDown history_ok_def js_index_def Let_def split: if_splits)
  next
    case left
    with h r show ?thesis by (auto simp add: key_ArrowLeft history_ok_def)
  next
    case right
    with h r show ?thesis by (auto simp add: key_ArrowRight history_ok_def)
  next
    case home
    with h r show ?thesis by (auto simp add: key_Home history_ok_def)
  next
    case endk
    with h r show ?thesis by (auto simp add: key_End history_ok_def)
  next
    case bksp
    with h r show ?thesis by (auto simp add: key_Backspace history_ok_def split: if_splits)
  next
    case delk
    with h r show ?thesis by (auto simp add: key_Delete history_ok_def split: if_splits)
  next
    case ign
    with h r show ?thesis by (simp add: key_ignored)
  next
    case other
    with h r show ?thesis by (auto simp add: key_default history_ok_def split: if_splits)
  qed
qed

text \<open>
  Both invariants hold in the component's initial state and along every sequence of key
  events from a state where they hold; no handler of the sequence throws.
\<close>

lemma initial_terminal_ok: "cursor_ok initial_terminal \<and> history_ok initial_terminal"
  by (simp add: cursor_ok_def history_ok_def initial_terminal_def)

lemma run_keys_ok:
  "cursor_ok s \<Longrightarrow> history_ok s \<Longrightarrow>
   \<exists>s'. run_keys es s = Inr s' \<and> cursor_ok s' \<and> history_ok s'"
proof (induction es arbitrary: s)
  case Nil
  then show ?case by simp
next
  case (Cons e es)
  from handleKeyDown_cursor_ok [of s e] Cons.prems
  obtain fwd s1 where r: "handleKeyDown e s = Inr (fwd, s1)" and c1: "cursor_ok s1"
    by blast
  from history_ok_preserved [OF Cons.prems(2) r] have h1: "history_ok s1" .
  from Cons.IH [OF c1 h1] r show ?case by simp
qed

text \<open>
  C7. From a state with \<open>0 \<le> cursor \<le> len(buffer)\<close>, every key event is handled
  without error and ends in a state with \<open>0 \<le> cursor \<le> len(buffer)\<close>: character
  insertion, \<open>Backspace\<close>, \<open>Delete\<close>, the cursor movements \<open>ArrowLeft\<close>,
  \<open>ArrowRight\<close>, \<open>Home\<close> and \<open>End\<close>, submission, and every other key; for the two
  history keys the history index is taken to be \<open>-1\<close> or a position of the history.
\<close>

theorem cursor_stays_in_buffer:
  assumes "cursor_ok s"
    and "key e = ''ArrowUp'' \<or> key e = ''ArrowDown'' \<longrightarrow> history_ok s"
  shows "\<exists>fwd s'. handleKeyDown e s = Inr (fwd, s') \<and> cursor_ok s'"
  using assms by (rule handleKeyDown_cursor_ok)

theorem cursor_stays_in_buffer_witness:
  "cursor_ok typing_abc \<and> history_ok typing_abc
   \<and> handleKeyDown (press ''ArrowUp'') typing_abc
       = Inr (None, typing_abc\<lparr>historyIndex := 0, input := ''ls -la'', cursorPosition := 6\<rparr>)
   \<and> cursor_ok (typing_abc\<lparr>historyIndex := 0, input := ''ls -la'', cursorPosition := 6\<rparr>)
   \<and> handleKeyDown (press ''Backspace'') typing_abc
       = Inr (None, typing_abc\<lparr>input := ''ab'', cursorPosition := 2\<rparr>)
   \<and> cursor_ok (typing_abc\<lparr>input := ''ab'', cursorPosition := 2\<rparr>)"
proof -
  have c: "cursor_ok typing_abc"
    by (simp add: cursor_ok_def typing_abc_def)
  have h: "history_ok typing_abc"
    by (simp add: history_ok_def typing_abc_def)
  have hu: "key (press ''ArrowUp'') = ''ArrowUp'' \<or> key (press ''ArrowUp'') = ''ArrowDown''
           \<longrightarrow> history_ok typing_abc"
    using h by simp
  have hb: "key (press ''Backspace'') = ''ArrowUp'' \<or> key (press ''Backspace'') = ''ArrowDown''
           \<longrightarrow> history_ok typing_abc"
    using h by simp
  have ru: "handleKeyDown (press ''ArrowUp'') typing_abc
       = Inr (None, typing_abc\<lparr>historyIndex := 0, input := ''ls -la'', cursorPosition := 6\<rparr>)"
    by (simp add: handleKeyDown_def press_def typing_abc_def js_index_def)
  have rb: "handleKeyDown (press ''Backspace'') typing_abc
       = Inr (None, typing_abc\<lparr>input := ''ab'', cursorPosition := 2\<rparr>)"
    by (simp add: handleKeyDown_def press_def typing_abc_def slice_def slice_from_def
        slice_index_def)
  from cursor_stays_in_buffer [OF c hu] cursor_stays_in_buffer [OF c hb] c h ru rb
  show ?thesis by auto
qed

section \<open>Loading providers\<close>

lemma find_hd_filter:
  "find P xs = (case filter P xs of [] \<Rightarrow> None | x # _ \<Rightarrow> Some x)"
  by (induction xs) auto

text \<open>
  C8 (as amended). \<open>loadProviders\<close> checks nothing: when the backend call returns a
  provider list in which two or more providers are marked as default, the store takes
  the list as it is, records no error, and sets \<open>defaultProvider\<close> to the identifier
  of the first of them in list order, or to \<open>null\<close> when that identifier is the empty
  string. The provider set is left unchanged, and an error recorded, only when the
  backend call itself fails.
\<close>

theorem loadProviders_accepts_two_defaults:
  assumes "2 \<le> length (filter default_p ps)"
  shows "providers (loadProviders (Inr ps) s) = ps
    \<and> error_app (loadProviders (Inr ps) s) = None
    \<and> defaultProvider (loadProviders (Inr ps) s)
        = (if id_p (hd (filter default_p ps)) = [] then None
           else Some (id_p (hd (filter default_p ps))))
    \<and> providers (loadProviders (Inl err) s) = providers s
    \<and> error_app (loadProviders (Inl err) s) = Some err"
proof -
  from assms obtain p rest where f: "filter default_p ps = p # rest"
    by (cases "filter default_p ps") auto
  then have "find default_p ps = Some p"
    by (simp add: find_hd_filter)
  with f show ?thesis
    by (simp add: loadProviders_def js_or_null_def)
qed

theorem loadProviders_accepts_two_defaults_witness:
  "2 \<le> length (filter default_p [provider_a, provider_b])
   \<and> providers (loadProviders (Inr [provider_a, provider_b]) initial_app_store)
       = [provider_a, provider_b]
   \<and> error_app (loadProviders (Inr [provider_a, provider_b]) initial_app_store) = None
   \<and> defaultProvider (loadProviders (Inr [provider_a, provider_b]) initial_app_store)
       = Some ''openai''
   \<and> 2 \<le> length (filter default_p [provider_a\<lparr>id_p := []\<rparr>, provider_b])
   \<and> defaultProvider
        (loadProviders (Inr [provider_a\<lparr>id_p := []\<rparr>, provider_b]) initial_app_store)
       = None"
proof -
  have two: "2 \<le> length (filter default_p [provider_a, provider_b])"
    by (simp add: provider_a_def provider_b_def)
  have two': "2 \<le> length (filter default_p [provider_a\<lparr>id_p := []\<rparr>, provider_b])"
    by (simp add: provider_a_def provider_b_def)
  have d: "id_p (hd (filter default_p [provider_a, provider_b])) = ''openai''"
    by (simp add: provider_a_def provider_b_def)
  have d': "id_p (hd (filter default_p [provider_a\<lparr>id_p := []\<rparr>, provider_b])) = []"
    by (simp add: provider_a_def provider_b_def)
  from loadProviders_accepts_two_defaults [OF two, of initial_app_store]
       loadProviders_accepts_two_defaults [OF two', of initial_app_store]
       two two' d d'
  show ?thesis by simp
qed

text \<open>
  C8 (as stated) fails: a loaded list with two default providers is not rejected; no
  error is recorded and the store's provider set changes from empty to the loaded list.
\<close>

theorem loadProviders_counterexample:
  "default_p provider_a \<and> default_p provider_b
   \<and> error_app (loadProviders (Inr [provider_a, provider_b]) initial_app_store) = None
   \<and> providers (loadProviders (Inr [provider_a, provider_b]) initial_app_store)
       = [provider_a, provider_b]
   \<and> providers initial_app_store = []"
  by (simp add: loadProviders_def initial_app_store_def provider_a_def provider_b_def)

section \<open>Hiding the window\<close>

text \<open>
  C9. Whatever the current state, the \<open>quick_hide\<close> callback hides the window
  (\<open>isVisible\<close> becomes false) and changes nothing else; when the window is already
  hidden the state is unchanged; and applying the callback twice gives the same state
  as applying it once.
\<close>

theorem quick_hide_idempotent:
  "handleHotkeyCallback r ''quick_hide'' now s = s\<lparr>isVisible := False\<rparr>
   \<and> (\<not> isVisible s \<longrightarrow> handleHotkeyCallback r ''quick_hide'' now s = s)
   \<and> handleHotkeyCallback r' ''quick_hide'' now'
        (handleHotkeyCallback r ''quick_hide'' now s)
      = handleHotkeyCallback r ''quick_hide'' now s"
  by (simp add: handleHotkeyCallback_def)

theorem quick_hide_idempotent_witness:
  "\<not> isVisible hidden_app
   \<and> handleHotkeyCallback visible_app ''quick_hide'' 5 hidden_app = hidden_app
   \<and> handleHotkeyCallback visible_app ''quick_hide'' 5 visible_app = hidden_app"
proof -
  have h: "\<not> isVisible hidden_app"
    by (simp add: hidden_app_def)
  have v: "visible_app\<lparr>isVisible := False\<rparr> = hidden_app"
    by (simp add: hidden_app_def visible_app_def)
  from quick_hide_idempotent [where r = visible_app and now = 5 and s = hidden_app] h
  have a: "handleHotkeyCallback visible_app ''quick_hide'' 5 hidden_app = hidden_app"
    by blast
  from quick_hide_idempotent [where r = visible_app and now = 5 and s = visible_app] v
  have b: "handleHotkeyCallback visible_app ''quick_hide'' 5 visible_app = hidden_app"
    by simp
  from h a b show ?thesis by simp
qed

end
